theory Spec2Isabelle
  imports Complex_Main "HOL-Library.Sublist"
begin

section \<open>Strings and Python primitives\<close>

text \<open>
  A Python \<open>str\<close> is modelled as \<^typ>\<open>string\<close>, the list of the bytes of its UTF-8
  encoding. The separator \<open>/\<close> is the single byte 0x2F, which never occurs inside a
  multi-byte UTF-8 sequence, so splitting the bytes splits the code points at the same
  places. The two marks that open the script's result lines are not ASCII; they are
  written as their three UTF-8 bytes.
\<close>

datatype py_error = IndexError | ValueError | BinasciiError

definition check_mark :: string where
  "check_mark = [CHR 0xE2, CHR 0x9C, CHR 0x93]"

definition cross_mark :: string where
  "cross_mark = [CHR 0xE2, CHR 0x9C, CHR 0x97]"

text \<open>
  \<open>s.split(sep)\<close> with a one-character separator: the segments between the
  occurrences of \<open>sep\<close>; the result is never empty (\<open>''.split('/') == ['']\<close>).
\<close>

fun split :: "char \<Rightarrow> string \<Rightarrow> string list" where
  "split sep [] = [[]]"
| "split sep (c # cs) =
     (if c = sep then [] # split sep cs
      else (case split sep cs of [] \<Rightarrow> [[c]] | w # ws \<Rightarrow> (c # w) # ws))"

text \<open>\<open>xs[i]\<close> for a non-negative index: IndexError out of range.\<close>

definition getitem :: "'a list \<Rightarrow> nat \<Rightarrow> py_error + 'a" where
  "getitem xs i = (if i < length xs then Inr (xs ! i) else Inl IndexError)"

text \<open>\<open>str(n)\<close> for an integer: its decimal digits, with a minus sign when negative.\<close>

definition digit_char :: "nat \<Rightarrow> char" where
  "digit_char d = ''0123456789'' ! d"

function str_nat :: "nat \<Rightarrow> string" where
  "str_nat n = (if n < 10 then [digit_char n] else str_nat (n div 10) @ [digit_char (n mod 10)])"
  by pat_completeness auto
termination
  by (relation "measure id") auto

definition str_int :: "int \<Rightarrow> string" where
  "str_int i = (if i < 0 then CHR ''-'' # str_nat (nat (- i)) else str_nat (nat i))"

section \<open>Scenario definitions (mqtt\_credential\_test.py)\<close>

text \<open>
  The connection constants. \<open>HUB_NAME\<close> and \<open>DEVICE_NAME\<close> are read from the process
  environment; the model fixes them at the defaults the script gives to \<open>os.getenv\<close>.
\<close>

definition HUB_NAME :: string where "HUB_NAME = ''ruath-iothub-004''"
definition DEVICE_NAME :: string where "DEVICE_NAME = ''ruath-device-001''"
definition HOST :: string where "HOST = HUB_NAME @ ''.azure-devices-int.net''"
definition PORT :: nat where "PORT = 8883"
definition CLIENT_ID :: string where "CLIENT_ID = DEVICE_NAME"
definition USERNAME :: string where
  "USERNAME = HOST @ ''/'' @ CLIENT_ID @ ''/?api-version=2025-08-01-preview''"
definition CA_CERT :: string where "CA_CERT = ''../IoTHubRootCA.crt.pem''"
definition DEVICE_CERT :: string where "DEVICE_CERT = ''./certGen/certs/'' @ DEVICE_NAME @ ''.crt''"
definition DEVICE_KEY :: string where "DEVICE_KEY = ''./certGen/private/'' @ DEVICE_NAME @ ''.key''"
definition HUB_SAS_KEY :: string where "HUB_SAS_KEY = ''<Your Hub SAS Key Here>''"
definition HUB_SAS_POLICY :: string where "HUB_SAS_POLICY = ''iothubowner''"
definition MOCK_CSR :: string where "MOCK_CSR = ''TU9DSyBDU1I=''"

text \<open>
  The fields that \<open>MQTTTestScenario.__init__\<close> and its two subclasses set. The
  \<open>request_id\<close> is drawn by \<open>random.randint(1, 99999999)\<close>; it is a field of the
  instance and so a parameter of every method.
\<close>

record scenario =
  name :: string
  description :: string
  request_id :: nat
  subscribe_topic :: string
  publish_topic :: "string option"
  payload :: "(string \<times> string) list option"
  disconnect_after_publish :: bool
  reconnect_delay :: nat

text \<open>\<open>MQTTTestScenario.__init__(self, name, description)\<close>, with the random draw \<open>rid\<close>.\<close>

definition MQTTTestScenario :: "string \<Rightarrow> string \<Rightarrow> nat \<Rightarrow> scenario" where
  "MQTTTestScenario nm descr rid =
     \<lparr>name = nm, description = descr, request_id = rid,
      subscribe_topic = ''$iothub/credentials/res/#'',
      publish_topic = None, payload = None,
      disconnect_after_publish = False, reconnect_delay = 0\<rparr>"

text \<open>\<open>HappyPathScenario.__init__(self)\<close>.\<close>

definition HappyPathScenario :: "nat \<Rightarrow> scenario" where
  "HappyPathScenario rid =
     (let self = MQTTTestScenario ''happy_path'' ''Issue a certificate with valid CSR'' rid in
      self\<lparr>publish_topic :=
             Some (''$iothub/credentials/POST/issueCertificate/?$rid='' @ str_nat (request_id self)),
           payload := Some [(''id'', CLIENT_ID), (''csr'', MOCK_CSR)]\<rparr>)"

text \<open>\<open>DisconnectReconnectScenario.__init__(self)\<close>.\<close>

definition DisconnectReconnectScenario :: "nat \<Rightarrow> scenario" where
  "DisconnectReconnectScenario rid =
     (let self = MQTTTestScenario ''disconnect_reconnect''
                   ''Disconnect after publish, reconnect later to receive response'' rid in
      self\<lparr>publish_topic :=
             Some (''$iothub/credentials/POST/issueCertificate/?$rid='' @ str_nat (request_id self)),
           payload := Some [(''id'', CLIENT_ID), (''csr'', MOCK_CSR)],
           disconnect_after_publish := True,
           reconnect_delay := 3\<rparr>)"

text \<open>\<open>get_publish_topic\<close> and \<open>get_payload\<close> of the base class.\<close>

definition get_publish_topic :: "scenario \<Rightarrow> string option" where
  "get_publish_topic self = publish_topic self"

definition get_payload :: "scenario \<Rightarrow> (string \<times> string) list option" where
  "get_payload self = payload self"

text \<open>\<open>HappyPathScenario.validate_response(self, topic, payload)\<close>.\<close>

definition HappyPath_validate_response ::
  "scenario \<Rightarrow> string \<Rightarrow> string \<Rightarrow> py_error + (bool \<times> string)" where
  "HappyPath_validate_response self topic payload_str =
     (let parts = split CHR ''/'' topic in
      if length parts \<ge> 4 then
        (case getitem parts 3 of
           Inl e \<Rightarrow> Inl e
         | Inr status_code \<Rightarrow>
             if status_code = ''202''
             then Inr (True, check_mark @ '' SUCCESS: Received expected status code 202'')
             else Inr (False, cross_mark @ '' FAILURE: Expected status code 202, got '' @ status_code))
      else Inr (False, cross_mark @ '' FAILURE: Could not parse status code from topic''))"

text \<open>\<open>DisconnectReconnectScenario.validate_response(self, topic, payload)\<close>.\<close>

definition DisconnectReconnect_validate_response ::
  "scenario \<Rightarrow> string \<Rightarrow> string \<Rightarrow> py_error + (bool \<times> string)" where
  "DisconnectReconnect_validate_response self topic payload_str =
     (let parts = split CHR ''/'' topic in
      if length parts \<ge> 4 then
        (case getitem parts 3 of
           Inl e \<Rightarrow> Inl e
         | Inr status_code \<Rightarrow>
             if status_code = ''202''
             then Inr (True, check_mark @ '' SUCCESS: Received response after reconnection (status code 202)'')
             else Inr (False, cross_mark @ '' FAILURE: Expected status code 202, got '' @ status_code))
      else Inr (False, cross_mark @ '' FAILURE: Could not parse status code from topic''))"


section \<open>The process state\<close>

text \<open>
  What leaves a Python function other than a return value: \<open>sys.exit(code)\<close>, the
  interrupt of the user, and an exception of class \<open>Exception\<close> with its text.
\<close>

datatype exn = SystemExit nat | KeyboardInterrupt | Exception string

text \<open>The calls the script makes on the paho client object, in the order made.\<close>

datatype call =
    UsernamePwSet string "string option"
  | TlsSet string "string option" "string option"
  | Connect string nat nat
  | LoopStart
  | LoopStop
  | Subscribe string nat
  | Publish "string option" string nat
  | Unsubscribe string
  | Disconnect

text \<open>
  What the network thread reports to the callbacks: the CONNACK with its return
  code, the SUBACK with the printed form of the granted QoS, the PUBACK with its
  message id, an inbound message (topic, QoS, payload) and the end of the connection
  with its code.
\<close>

datatype event =
    Connack nat
  | Suback string
  | Puback nat
  | Message string nat string
  | Disconnected nat

text \<open>
  What happens while the main thread is inside one \<open>time.sleep\<close>: the network thread
  delivers some events, or the user interrupts the process.
\<close>

datatype tick = Events "event list" | CtrlC

text \<open>
  The state the script reads and writes. \<open>response_received\<close> is the module-level
  flag. \<open>clock\<close> is the wall clock in milliseconds, so that \<open>time.time()\<close> is
  \<open>clock / 1000\<close>; a sleep of \<open>d\<close> milliseconds advances it by \<open>d\<close>. \<open>stdout\<close> holds
  the texts printed and \<open>calls\<close> the client calls made. \<open>connected\<close> is what
  \<open>client.is_connected()\<close> returns and \<open>loop_running\<close> tells whether the network thread
  is delivering events. The remaining fields are the environment: the ticks still to
  come, the outcome of each future \<open>client.connect\<close> (an exception text, or none), the
  result \<open>(rc, mid)\<close> of each future \<open>client.publish\<close> and the future draws of
  \<open>random.randint\<close>; an exhausted list means quiet ticks, successful connects,
  successful publishes and the draw 1.
\<close>

record world =
  response_received :: bool
  clock :: nat
  stdout :: "string list"
  calls :: "call list"
  connected :: bool
  loop_running :: bool
  ticks :: "tick list"
  connect_outcomes :: "string option list"
  publish_results :: "(nat \<times> nat) list"
  random_draws :: "nat list"

definition print :: "string \<Rightarrow> world \<Rightarrow> world" where
  "print s w = w\<lparr>stdout := stdout w @ [s]\<rparr>"

definition time_time :: "world \<Rightarrow> real" where
  "time_time w = real (clock w) / 1000"

text \<open>\<open>int(x)\<close> of a float, taken as a real number: truncation towards zero.\<close>

definition py_int :: "real \<Rightarrow> int" where
  "py_int x = (if x \<ge> 0 then \<lfloor>x\<rfloor> else \<lceil>x\<rceil>)"

section \<open>SAS token generation (mqtt\_credential\_test.py)\<close>

text \<open>
  \<open>base64.b64decode(s)\<close> with its default \<open>validate=False\<close>, as the standard library
  documents and implements it (\<open>binascii.a2b_base64\<close> in its non-strict mode): a
  \<open>str\<close> with a non-ASCII character is refused with ValueError; characters outside
  the alphabet are skipped; a padding sign that completes a quad ends the decoding
  and whatever follows it is not read; when the input ends inside a quad the
  call raises \<open>binascii.Error\<close>. The state is that of the C loop: the position in
  the quad, the bits left over, the padding signs seen, the bytes written.
\<close>

definition b64_alphabet :: string where
  "b64_alphabet = ''ABCDEFGHIJKLMNOPQRSTUVWXYZabcdefghijklmnopqrstuvwxyz0123456789+/''"

fun index_of :: "'a \<Rightarrow> 'a list \<Rightarrow> nat option" where
  "index_of x [] = None"
| "index_of x (y # ys) = (if x = y then Some 0 else map_option Suc (index_of x ys))"

definition byte :: "nat \<Rightarrow> char" where
  "byte n = char_of n"

fun a2b_base64 :: "string \<Rightarrow> nat \<Rightarrow> nat \<Rightarrow> nat \<Rightarrow> string \<Rightarrow> py_error + string" where
  "a2b_base64 [] quad_pos leftchar pads bin_data =
     (if quad_pos \<noteq> 0 then Inl BinasciiError else Inr bin_data)"
| "a2b_base64 (this_ch # ascii_data) quad_pos leftchar pads bin_data =
     (if this_ch = CHR ''='' then
        (if quad_pos \<ge> 2 \<and> quad_pos + (pads + 1) \<ge> 4 then Inr bin_data
         else a2b_base64 ascii_data quad_pos leftchar
                (if quad_pos \<ge> 2 then pads + 1 else pads) bin_data)
      else
        (case index_of this_ch b64_alphabet of
           None \<Rightarrow> a2b_base64 ascii_data quad_pos leftchar pads bin_data
         | Some v \<Rightarrow>
             if quad_pos = 0 then a2b_base64 ascii_data 1 v 0 bin_data
             else if quad_pos = 1 then
               a2b_base64 ascii_data 2 (v mod 16) 0 (bin_data @ [byte (leftchar * 4 + v div 16)])
             else if quad_pos = 2 then
               a2b_base64 ascii_data 3 (v mod 4) 0 (bin_data @ [byte (leftchar * 16 + v div 4)])
             else
               a2b_base64 ascii_data 0 0 0 (bin_data @ [byte (leftchar * 64 + v)])))"

definition b64decode :: "string \<Rightarrow> py_error + string" where
  "b64decode s =
     (if list_ex (\<lambda>c. (of_char c :: nat) \<ge> 128) s then Inl ValueError
      else a2b_base64 s 0 0 0 [])"

text \<open>\<open>base64.b64encode(bs)\<close>: three bytes become four characters, padded with \<open>=\<close>.\<close>

definition b64_char :: "nat \<Rightarrow> char" where
  "b64_char i = b64_alphabet ! i"

fun b64encode :: "string \<Rightarrow> string" where
  "b64encode [] = []"
| "b64encode [a] =
     (let x = (of_char a :: nat) in
      [b64_char (x div 4), b64_char ((x mod 4) * 16), CHR ''='', CHR ''=''])"
| "b64encode [a, b] =
     (let x = (of_char a :: nat); y = (of_char b :: nat) in
      [b64_char (x div 4), b64_char ((x mod 4) * 16 + y div 16),
       b64_char ((y mod 16) * 4), CHR ''=''])"
| "b64encode (a # b # c # rest) =
     (let x = (of_char a :: nat); y = (of_char b :: nat); z = (of_char c :: nat) in
      [b64_char (x div 4), b64_char ((x mod 4) * 16 + y div 16),
       b64_char ((y mod 16) * 4 + z div 64), b64_char (z mod 64)] @ b64encode rest)"

text \<open>
  \<open>urllib.parse.quote_plus(s)\<close> with its default arguments: letters, digits and
  \<open>_.-~\<close> stay, a space becomes \<open>+\<close>, every other byte becomes \<open>%XX\<close> in upper-case
  hexadecimal.
\<close>

definition always_safe :: "char \<Rightarrow> bool" where
  "always_safe c = List.member
     ''ABCDEFGHIJKLMNOPQRSTUVWXYZabcdefghijklmnopqrstuvwxyz0123456789_.-~'' c"

definition hex_digit :: "nat \<Rightarrow> char" where
  "hex_digit d = ''0123456789ABCDEF'' ! d"

fun quote_plus :: "string \<Rightarrow> string" where
  "quote_plus [] = []"
| "quote_plus (c # cs) =
     (if always_safe c then [c]
      else if c = CHR '' '' then ''+''
      else [CHR ''%'', hex_digit ((of_char c :: nat) div 16), hex_digit ((of_char c :: nat) mod 16)])
     @ quote_plus cs"

text \<open>The text of a caught exception, as \<open>print(f"... {e}")\<close> shows it.\<close>

fun str_error :: "py_error \<Rightarrow> string" where
  "str_error IndexError = ''list index out of range''"
| "str_error ValueError = ''string argument should contain only ASCII characters''"
| "str_error BinasciiError = ''Incorrect padding''"

text \<open>
  \<open>generate_sas_token(uri, key, policy_name=None, expiry=3600)\<close>. The keyed hash
  \<open>hmac.new(k, m, hashlib.sha256).digest()\<close> of the standard library is the parameter
  \<open>hmac_sha256\<close>. The function reads the clock, and on a key that does not decode it
  prints one line and leaves the process by \<open>sys.exit(1)\<close>.
\<close>

definition generate_sas_token ::
  "(string \<Rightarrow> string \<Rightarrow> string) \<Rightarrow> string \<Rightarrow> string \<Rightarrow> string option \<Rightarrow> int \<Rightarrow> world
     \<Rightarrow> (exn + string) \<times> world" where
  "generate_sas_token hmac_sha256 uri key policy_name expiry w =
     (let ttl = py_int (time_time w + real_of_int expiry);
          sign_key = uri @ [CHR 0x0A] @ str_int ttl
      in case b64decode key of
           Inl e \<Rightarrow>
             (Inl (SystemExit 1), print (cross_mark @ '' Error decoding key: '' @ str_error e) w)
         | Inr decoded_key \<Rightarrow>
             (let signature = hmac_sha256 decoded_key sign_key;
                  signature_b64 = b64encode signature;
                  signature_encoded = quote_plus signature_b64;
                  token =
                    (case policy_name of
                       Some pn \<Rightarrow>
                         if pn \<noteq> [] then
                           ''SharedAccessSignature sr='' @ uri @ ''&sig='' @ signature_encoded
                             @ ''&se='' @ str_int ttl @ ''&skn='' @ pn
                         else
                           ''SharedAccessSignature sr='' @ uri @ ''&sig='' @ signature_encoded
                             @ ''&se='' @ str_int ttl
                     | None \<Rightarrow>
                         ''SharedAccessSignature sr='' @ uri @ ''&sig='' @ signature_encoded
                           @ ''&se='' @ str_int ttl)
              in (Inr token, w)))"

definition parse_failure :: string where
  "parse_failure = cross_mark @ '' FAILURE: Could not parse status code from topic''"

section \<open>Response validation\<close>

lemma split_nonempty: "split sep s \<noteq> []"
  by (induction s) (auto split: list.splits)

lemma sublist_suffix: "sublist xs (ps @ xs)"
  using sublist_appendI [of xs ps "[]"] by simp

text \<open>
  C1. On a topic with at least four segments the happy-path validation returns
  normally, its success flag is true exactly when segment 3 is the string 202, and
  on a failure the message contains the segment that was received.
\<close>

theorem happy_path_status_202:
  assumes "4 \<le> length (split CHR ''/'' topic)"
  shows "\<exists>ok msg. HappyPath_validate_response self topic payload_str = Inr (ok, msg)
           \<and> (ok \<longleftrightarrow> split CHR ''/'' topic ! 3 = ''202'')
           \<and> (\<not> ok \<longrightarrow> sublist (split CHR ''/'' topic ! 3) msg)"
proof (cases "split CHR ''/'' topic ! 3 = ''202''")
  case True
  with assms have "HappyPath_validate_response self topic payload_str
      = Inr (True, check_mark @ '' SUCCESS: Received expected status code 202'')"
    by (simp add: HappyPath_validate_response_def getitem_def Let_def)
  with True show ?thesis by blast
next
  case False
  with assms have "HappyPath_validate_response self topic payload_str
      = Inr (False, (cross_mark @ '' FAILURE: Expected status code 202, got '') @ split CHR ''/'' topic ! 3)"
    by (simp add: HappyPath_validate_response_def getitem_def Let_def)
  moreover have "sublist (split CHR ''/'' topic ! 3)
      ((cross_mark @ '' FAILURE: Expected status code 202, got '') @ split CHR ''/'' topic ! 3)"
    by (rule sublist_suffix)
  ultimately show ?thesis using False by blast
qed

theorem happy_path_status_202_witness:
  "4 \<le> length (split CHR ''/'' ''$iothub/credentials/res/400/?$rid=7&$version=1'')
   \<and> (\<exists>ok msg. HappyPath_validate_response (HappyPathScenario 7)
          ''$iothub/credentials/res/400/?$rid=7&$version=1'' ''{}'' = Inr (ok, msg)
        \<and> (ok \<longleftrightarrow> split CHR ''/'' ''$iothub/credentials/res/400/?$rid=7&$version=1'' ! 3 = ''202'')
        \<and> (\<not> ok \<longrightarrow> sublist (split CHR ''/'' ''$iothub/credentials/res/400/?$rid=7&$version=1'' ! 3) msg))"
proof -
  have h: "4 \<le> length (split CHR ''/'' ''$iothub/credentials/res/400/?$rid=7&$version=1'')"
    by simp
  from happy_path_status_202 [OF h, of "HappyPathScenario 7" "''{}''"] h show ?thesis
    by blast
qed

text \<open>
  C2. Both validation methods are total: on every topic and payload they return a
  result and raise nothing (the index 3 is read only behind the length check). On a
  topic with fewer than four segments both return failure with the message that the
  status code could not be parsed.
\<close>

theorem validate_response_total:
  "(\<exists>r1 r2. HappyPath_validate_response s1 topic payload_str = Inr r1
        \<and> DisconnectReconnect_validate_response s2 topic payload_str = Inr r2)
   \<and> (length (split CHR ''/'' topic) < 4 \<longrightarrow>
        HappyPath_validate_response s1 topic payload_str = Inr (False, parse_failure)
        \<and> DisconnectReconnect_validate_response s2 topic payload_str = Inr (False, parse_failure))"
  by (auto simp: HappyPath_validate_response_def DisconnectReconnect_validate_response_def
      getitem_def Let_def parse_failure_def)

theorem validate_response_total_witness:
  "length (split CHR ''/'' ''$iothub/credentials/res'') < 4
   \<and> HappyPath_validate_response (HappyPathScenario 7) ''$iothub/credentials/res'' ''{}''
       = Inr (False, parse_failure)
   \<and> DisconnectReconnect_validate_response (DisconnectReconnectScenario 8)
         ''$iothub/credentials/res'' ''{}''
       = Inr (False, parse_failure)"
proof -
  have h: "length (split CHR ''/'' ''$iothub/credentials/res'') < 4"
    by simp
  from validate_response_total [of "HappyPathScenario 7" "''$iothub/credentials/res''" "''{}''"
      "DisconnectReconnectScenario 8"] h
  show ?thesis by blast
qed

text \<open>
  C7. The success flag is a function of segment 3 of the topic alone: two topics with
  at least four segments that agree on segment 3 get the same flag, whatever the
  payloads and whatever the request identifiers of the scenario instances. In
  particular a topic of status 202 is accepted with any text after \<open>$rid=\<close>, equal to
  the instance's own request identifier or not.
\<close>

theorem validate_response_keys_on_segment:
  "(4 \<le> length (split CHR ''/'' t1) \<and> 4 \<le> length (split CHR ''/'' t2)
      \<and> split CHR ''/'' t1 ! 3 = split CHR ''/'' t2 ! 3 \<longrightarrow>
      map_sum id fst (HappyPath_validate_response s1 t1 p1)
        = map_sum id fst (HappyPath_validate_response s2 t2 p2)
      \<and> map_sum id fst (DisconnectReconnect_validate_response s1 t1 p1)
        = map_sum id fst (DisconnectReconnect_validate_response s2 t2 p2))
   \<and> map_sum id fst (HappyPath_validate_response s1 (''$iothub/credentials/res/202/?$rid='' @ rid) p1)
        = Inr True
   \<and> map_sum id fst (DisconnectReconnect_validate_response s1 (''$iothub/credentials/res/202/?$rid='' @ rid) p1)
        = Inr True"
  by (intro conjI impI)
    (auto simp: HappyPath_validate_response_def DisconnectReconnect_validate_response_def
      getitem_def Let_def split: list.splits)

theorem validate_response_keys_on_segment_witness:
  "4 \<le> length (split CHR ''/'' ''$iothub/credentials/res/202/?$rid=7&$version=1'')
   \<and> 4 \<le> length (split CHR ''/'' ''other/prefix/here/202'')
   \<and> split CHR ''/'' ''$iothub/credentials/res/202/?$rid=7&$version=1'' ! 3
       = split CHR ''/'' ''other/prefix/here/202'' ! 3
   \<and> map_sum id fst (HappyPath_validate_response (HappyPathScenario 7)
         ''$iothub/credentials/res/202/?$rid=7&$version=1'' ''{}'')
       = map_sum id fst (HappyPath_validate_response (HappyPathScenario 12345)
         ''other/prefix/here/202'' ''payload'')"
proof -
  have h: "4 \<le> length (split CHR ''/'' ''$iothub/credentials/res/202/?$rid=7&$version=1'')
      \<and> 4 \<le> length (split CHR ''/'' ''other/prefix/here/202'')
      \<and> split CHR ''/'' ''$iothub/credentials/res/202/?$rid=7&$version=1'' ! 3
          = split CHR ''/'' ''other/prefix/here/202'' ! 3"
    by simp
  from validate_response_keys_on_segment [of "''$iothub/credentials/res/202/?$rid=7&$version=1''"
      "''other/prefix/here/202''" "HappyPathScenario 7" "''{}''" "HappyPathScenario 12345" "''payload''"] h
  show ?thesis by blast
qed

text \<open>
  C8. The disconnect/reconnect scenario validates a response by the same rule as the
  happy path: on every topic and payload, and whatever the two instances' request
  identifiers, both methods return normally with the same success flag; only the
  message text may differ.
\<close>

theorem validate_response_same_rule:
  "\<exists>ok m1 m2. HappyPath_validate_response s1 topic payload_str = Inr (ok, m1)
     \<and> DisconnectReconnect_validate_response s2 topic payload_str = Inr (ok, m2)"
  by (auto simp: HappyPath_validate_response_def DisconnectReconnect_validate_response_def
      getitem_def Let_def)

end
